theory Spec2Isabelle
  imports Main
begin

section \<open>Strings\<close>

text \<open>
  JavaScript strings are modelled as \<open>string\<close>. \<open>includes_str s pat\<close> is
  \<^verbatim>\<open>s.includes(pat)\<close>; \<open>replace_first s pat rep\<close> is \<^verbatim>\<open>s.replace(pat, rep)\<close> for a
  string pattern, which replaces the first occurrence only (the replacement texts used
  below hold no \<^verbatim>\<open>$\<close> pattern).
\<close>

definition starts_with :: "string \<Rightarrow> string \<Rightarrow> bool" where
  "starts_with s pat = (take (length pat) s = pat)"

fun includes_str :: "string \<Rightarrow> string \<Rightarrow> bool" where
  "includes_str [] pat = (pat = [])"
| "includes_str (c # cs) pat = (starts_with (c # cs) pat \<or> includes_str cs pat)"

fun replace_first :: "string \<Rightarrow> string \<Rightarrow> string \<Rightarrow> string" where
  "replace_first [] pat rep = (if pat = [] then rep else [])"
| "replace_first (c # cs) pat rep =
     (if starts_with (c # cs) pat then rep @ drop (length pat) (c # cs)
      else c # replace_first cs pat rep)"

section \<open>WebScraperDataProvider: URL normalisation\<close>

text \<open>
  \<^verbatim>\<open>
  private normalizeUrl(url: string): string {
    if (url.includes("//www.")) {
      return url.replace("//www.", "//");
    }
    return url;
  }
  \<close>
\<close>

definition normalizeUrl :: "string \<Rightarrow> string" where
  "normalizeUrl url =
     (if includes_str url ''//www.'' then replace_first url ''//www.'' ''//'' else url)"

definition url_double_www :: string where
  "url_double_www = ''http://www.www.example.com''"

section \<open>JavaScript values\<close>

text \<open>
  Values whose shape the TypeScript types leave open (\<^verbatim>\<open>any\<close>, a thrown value, a parsed
  JSON body) are \<open>jsval\<close>. \<open>truthy\<close> is the test made by \<^verbatim>\<open>if (v)\<close>, \<^verbatim>\<open>v || w\<close> and
  \<^verbatim>\<open>v ? a : b\<close>; \<open>nullish\<close> the one made by \<^verbatim>\<open>??\<close> and \<^verbatim>\<open>?.\<close>.
\<close>

datatype jsval =
    JUndefined
  | JNull
  | JBool bool
  | JNum int
  | JStr string
  | JObj "(string \<times> jsval) list"

fun truthy :: "jsval \<Rightarrow> bool" where
  "truthy JUndefined = False"
| "truthy JNull = False"
| "truthy (JBool b) = b"
| "truthy (JNum n) = (n \<noteq> 0)"
| "truthy (JStr s) = (s \<noteq> [])"
| "truthy (JObj fs) = True"

definition nullish :: "jsval \<Rightarrow> bool" where
  "nullish v = (v = JUndefined \<or> v = JNull)"

definition js_or :: "jsval \<Rightarrow> jsval \<Rightarrow> jsval" where
  "js_or a b = (if truthy a then a else b)"

definition js_coalesce :: "jsval \<Rightarrow> jsval \<Rightarrow> jsval" where
  "js_coalesce a b = (if nullish a then b else a)"

definition truthy_str :: "string option \<Rightarrow> bool" where
  "truthy_str s = (case s of None \<Rightarrow> False | Some t \<Rightarrow> t \<noteq> [])"

definition coalesce :: "'a option \<Rightarrow> 'a \<Rightarrow> 'a" where
  "coalesce x d = (case x of None \<Rightarrow> d | Some v \<Rightarrow> v)"

section \<open>Options\<close>

text \<open>
  \<^verbatim>\<open>PageOptions\<close> and the crawler options are option bags: every field may be absent
  (\<open>None\<close> is \<^verbatim>\<open>undefined\<close>). The fields are the ones \<^verbatim>\<open>setOptions\<close> reads.
\<close>

record page_options =
  replaceAllPathsWithAbsolutePaths :: "bool option"
  parsePDF :: "bool option"
  onlyIncludeTags :: "string list option"
  removeTags :: "string list option"
  includeMarkdown :: "bool option"
  includeRawHtml :: "bool option"
  waitFor :: "int option"
  headers :: "(string \<times> string) list option"
  includeLinks :: "bool option"
  fullPageScreenshot :: "bool option"
  screenshot :: "bool option"
  useFastMode :: "bool option"
  disableJsDom :: "bool option"
  atsv :: "bool option"

definition empty_page_options :: page_options where
  "empty_page_options =
     \<lparr>replaceAllPathsWithAbsolutePaths = None, parsePDF = None, onlyIncludeTags = None,
      removeTags = None, includeMarkdown = None, includeRawHtml = None, waitFor = None,
      headers = None, includeLinks = None, fullPageScreenshot = None, screenshot = None,
      useFastMode = None, disableJsDom = None, atsv = None\<rparr>"

text \<open>The object spread \<^verbatim>\<open>{...po}\<close>: spreading \<^verbatim>\<open>undefined\<close> gives the empty object.\<close>

definition spread_page_options :: "page_options option \<Rightarrow> page_options" where
  "spread_page_options po = (case po of None \<Rightarrow> empty_page_options | Some p \<Rightarrow> p)"

datatype str_or_list = StrV string | ArrV "string list"

record crawler_options =
  co_includes :: "str_or_list option"
  co_excludes :: "str_or_list option"
  maxCrawledLinks :: "int option"
  maxDepth :: "int option"
  returnOnlyUrls :: "bool option"
  limit :: "int option"
  co_replaceAllPathsWithAbsolutePaths :: "bool option"
  co_mode :: "string option"
  ignoreSitemap :: "bool option"
  allowExternalLinks :: "bool option"

datatype scrape_mode = single_urls | sitemap | crawl

section \<open>Jobs\<close>

text \<open>
  The payload of a queue job (\<^verbatim>\<open>job.data\<close>), its options (\<^verbatim>\<open>job.opts\<close>) and the job as the
  controller hands it to the queue (\<^verbatim>\<open>{ name, data, opts }\<close>).
\<close>

record job_data =
  url :: string
  mode :: scrape_mode
  team_id :: string
  crawlerOptions :: "crawler_options option"
  pageOptions :: "page_options option"
  webhookUrls :: "string list option"
  webhookMetadata :: jsval
  origin :: "string option"
  crawl_id :: "string option"
  sitemapped :: "bool option"
  v1 :: "bool option"
  is_scrape :: "bool option"

record job_opts =
  jobId :: string
  priority :: int

record queue_job =
  name :: string
  data :: job_data
  opts :: job_opts

section \<open>runWebScraper.ts: startWebScraperPipeline\<close>

text \<open>
  \<^verbatim>\<open>startWebScraperPipeline\<close> calls \<^verbatim>\<open>runWebScraper\<close> with an argument object built from
  the job; \<open>startWebScraperPipeline_params\<close> is that object (the callbacks only log).
  \<^verbatim>\<open>
    pageOptions: {
      ...job.data.pageOptions,
      ...(job.data.crawl_id ? { includeRawHtml: true } : {}),
    },
  \<close>
  A \<^verbatim>\<open>bullmq\<close> job has the id it was added under (\<^verbatim>\<open>opts.jobId\<close>).
\<close>

record run_web_scraper_params =
  r_url :: string
  r_mode :: scrape_mode
  r_crawlerOptions :: "crawler_options option"
  r_pageOptions :: page_options
  r_webhookUrls :: "string list option"
  r_webhookMetadata :: jsval
  r_team_id :: string
  r_bull_job_id :: string
  r_priority :: int
  r_is_scrape :: bool
  r_crawl_id :: "string option"

definition startWebScraperPipeline_params :: "queue_job \<Rightarrow> run_web_scraper_params" where
  "startWebScraperPipeline_params job =
     \<lparr>r_url = url (data job),
      r_mode = mode (data job),
      r_crawlerOptions = crawlerOptions (data job),
      r_pageOptions =
        (if truthy_str (crawl_id (data job))
         then (spread_page_options (pageOptions (data job)))\<lparr>includeRawHtml := Some True\<rparr>
         else spread_page_options (pageOptions (data job))),
      r_webhookUrls = webhookUrls (data job),
      r_webhookMetadata = webhookMetadata (data job),
      r_team_id = team_id (data job),
      r_bull_job_id = jobId (opts job),
      r_priority = priority (opts job),
      r_is_scrape = coalesce (is_scrape (data job)) False,
      r_crawl_id = crawl_id (data job)\<rparr>"

text \<open>
  \<^verbatim>\<open>runWebScraper\<close> hands the parameters to \<^verbatim>\<open>provider.setOptions\<close>: in mode \<^verbatim>\<open>crawl\<close>
  with \<^verbatim>\<open>urls: [url]\<close>, otherwise with \<^verbatim>\<open>urls: url.split(",")\<close>.
\<close>

fun split_on :: "char \<Rightarrow> string \<Rightarrow> string list" where
  "split_on c [] = [[]]"
| "split_on c (x # xs) =
     (if x = c then [] # split_on c xs
      else (case split_on c xs of [] \<Rightarrow> [[x]] | y # ys \<Rightarrow> (x # y) # ys))"

record web_scraper_options =
  o_jobId :: string
  o_mode :: scrape_mode
  o_urls :: "string list"
  o_crawlerOptions :: "crawler_options option"
  o_pageOptions :: "page_options option"
  o_webhookUrls :: "string list option"
  o_webhookMetadata :: jsval
  o_bullJobId :: "string option"
  o_crawlId :: "string option"
  o_priority :: "int option"
  o_teamId :: "string option"
  o_concurrentRequests :: "int option"

definition runWebScraper_options :: "run_web_scraper_params \<Rightarrow> web_scraper_options" where
  "runWebScraper_options p =
     (if r_mode p = crawl then
        \<lparr>o_jobId = r_bull_job_id p, o_mode = r_mode p, o_urls = [r_url p],
         o_crawlerOptions = r_crawlerOptions p, o_pageOptions = Some (r_pageOptions p),
         o_webhookUrls = r_webhookUrls p, o_webhookMetadata = r_webhookMetadata p,
         o_bullJobId = Some (r_bull_job_id p), o_crawlId = r_crawl_id p,
         o_priority = Some (r_priority p), o_teamId = None, o_concurrentRequests = None\<rparr>
      else
        \<lparr>o_jobId = r_bull_job_id p, o_mode = r_mode p, o_urls = split_on CHR '','' (r_url p),
         o_crawlerOptions = r_crawlerOptions p, o_pageOptions = Some (r_pageOptions p),
         o_webhookUrls = r_webhookUrls p, o_webhookMetadata = r_webhookMetadata p,
         o_bullJobId = None, o_crawlId = r_crawl_id p,
         o_priority = None, o_teamId = Some (r_team_id p), o_concurrentRequests = None\<rparr>)"

section \<open>WebScraperDataProvider: setOptions and processLinks\<close>

text \<open>
  \<^verbatim>\<open>trim\<close> removes white space and line terminators at both ends. A character of the
  model is a code unit below 256, and a string of the model a JavaScript string of such
  code units (URLs and patterns are); of these, \<^verbatim>\<open>trim\<close> strips tab, line feed, vertical
  tab, form feed, carriage return, space and the no-break space U+00A0. The other
  characters it strips (U+FEFF, U+2028, U+2029 and the space separators from U+1680 on)
  lie beyond 255 and are in no string of the model.
\<close>

definition is_space :: "char \<Rightarrow> bool" where
  "is_space c =
     (c \<in> set [CHR 0x09, CHR 0x0A, CHR 0x0B, CHR 0x0C, CHR 0x0D, CHR 0x20, CHR 0xA0])"

definition js_trim :: "string \<Rightarrow> string" where
  "js_trim s = rev (dropWhile is_space (rev (dropWhile is_space s)))"

definition ends_with :: "string \<Rightarrow> string \<Rightarrow> bool" where
  "ends_with s suf = starts_with (rev s) (rev suf)"

text \<open>
  The fields of the provider that \<^verbatim>\<open>setOptions\<close> assigns. \<^verbatim>\<open>setOptions\<close> throws when
  \<^verbatim>\<open>options.urls\<close> is missing; \<^verbatim>\<open>runWebScraper\<close> always passes the array, so the options
  record has it.
\<close>

record provider =
  p_jobId :: string
  p_crawlId :: "string option"
  p_urls :: "string list"
  p_mode :: scrape_mode
  p_includes :: "string list"
  p_excludes :: "string list"
  p_maxCrawledLinks :: int
  p_maxCrawledDepth :: int
  p_returnOnlyUrls :: bool
  p_limit :: int
  p_concurrentRequests :: int
  p_ignoreSitemap :: bool
  p_pageOptions :: page_options
  p_webhookUrls :: "string list option"
  p_webhookMetadata :: jsval
  p_replaceAllPathsWithAbsolutePaths :: bool
  p_crawlerMode :: string
  p_allowExternalLinks :: bool

text \<open>
  \<^verbatim>\<open>options.crawlerOptions?.f\<close> and \<^verbatim>\<open>options.pageOptions?.f\<close>: an absent bag gives
  \<^verbatim>\<open>undefined\<close>.
\<close>

definition co_field :: "(crawler_options \<Rightarrow> 'a option) \<Rightarrow> web_scraper_options \<Rightarrow> 'a option" where
  "co_field f options = (case o_crawlerOptions options of None \<Rightarrow> None | Some c \<Rightarrow> f c)"

definition po_field :: "(page_options \<Rightarrow> 'a option) \<Rightarrow> web_scraper_options \<Rightarrow> 'a option" where
  "po_field f options = (case o_pageOptions options of None \<Rightarrow> None | Some c \<Rightarrow> f c)"

text \<open>
  \<^verbatim>\<open>includes\<close> and \<^verbatim>\<open>excludes\<close>: \<^verbatim>\<open>?? []\<close> first, then a string value is split at
  commas and its blank items dropped.
\<close>

definition pattern_list :: "str_or_list option \<Rightarrow> string list" where
  "pattern_list v =
     (case v of
        None \<Rightarrow> []
      | Some (ArrV xs) \<Rightarrow> xs
      | Some (StrV s) \<Rightarrow> filter (\<lambda>item. js_trim item \<noteq> []) (split_on CHR '','' s))"

definition setOptions :: "web_scraper_options \<Rightarrow> provider" where
  "setOptions options =
     \<lparr>p_jobId = o_jobId options,
      p_crawlId = o_crawlId options,
      p_urls =
        map (\<lambda>u. if \<not> starts_with (js_trim u) ''http'' then ''https://'' @ u else u)
          (o_urls options),
      p_mode = o_mode options,
      p_includes = pattern_list (co_field co_includes options),
      p_excludes = pattern_list (co_field co_excludes options),
      p_maxCrawledLinks = coalesce (co_field maxCrawledLinks options) 1000,
      p_maxCrawledDepth = coalesce (co_field maxDepth options) 10,
      p_returnOnlyUrls = coalesce (co_field returnOnlyUrls options) False,
      p_limit = coalesce (co_field limit options) 10000,
      p_concurrentRequests = coalesce (o_concurrentRequests options) 20,
      p_ignoreSitemap = coalesce (co_field ignoreSitemap options) True,
      p_pageOptions =
        \<lparr>replaceAllPathsWithAbsolutePaths =
           Some (coalesce (po_field replaceAllPathsWithAbsolutePaths options) True),
         parsePDF = Some (coalesce (po_field parsePDF options) True),
         onlyIncludeTags = Some (coalesce (po_field onlyIncludeTags options) []),
         removeTags = Some (coalesce (po_field removeTags options) []),
         includeMarkdown = Some (coalesce (po_field includeMarkdown options) True),
         includeRawHtml = Some (coalesce (po_field includeRawHtml options) False),
         waitFor = po_field waitFor options,
         headers = po_field headers options,
         includeLinks = Some (coalesce (po_field includeLinks options) True),
         fullPageScreenshot = Some (coalesce (po_field fullPageScreenshot options) False),
         screenshot = Some (coalesce (po_field screenshot options) False),
         useFastMode = Some (coalesce (po_field useFastMode options) False),
         disableJsDom = Some (coalesce (po_field disableJsDom options) False),
         atsv = Some (coalesce (po_field atsv options) False)\<rparr>,
      p_webhookUrls = o_webhookUrls options,
      p_webhookMetadata = o_webhookMetadata options,
      p_replaceAllPathsWithAbsolutePaths =
        coalesce (co_field co_replaceAllPathsWithAbsolutePaths options)
          (coalesce (po_field replaceAllPathsWithAbsolutePaths options) False),
      p_crawlerMode = coalesce (co_field co_mode options) ''default'',
      p_allowExternalLinks = coalesce (co_field allowExternalLinks options) False\<rparr>"

text \<open>
  \<^verbatim>\<open>
  private applyPathReplacements(documents: Document[]): Document[] {
    if (this.replaceAllPathsWithAbsolutePaths) {
      documents = replacePathsWithAbsolutePaths(documents);
    }
    return replaceImgPathsWithAbsolutePaths(documents);
  }
  \<close>
  The two rewriting functions live in \<^verbatim>\<open>utils/replacePaths\<close>; they are parameters here,
  and so is the type of documents.
\<close>

definition applyPathReplacements ::
  "('d list \<Rightarrow> 'd list) \<Rightarrow> ('d list \<Rightarrow> 'd list) \<Rightarrow> provider \<Rightarrow> 'd list \<Rightarrow> 'd list" where
  "applyPathReplacements replacePathsWithAbsolutePaths replaceImgPathsWithAbsolutePaths this documents =
     replaceImgPathsWithAbsolutePaths
       (if p_replaceAllPathsWithAbsolutePaths this
        then replacePathsWithAbsolutePaths documents else documents)"

text \<open>
  \<^verbatim>\<open>processLinks\<close> drops the links to PDF and DOC files, builds the documents
  (\<^verbatim>\<open>convertUrlsToDocuments\<close>, which scrapes each link, then the sitemap metadata step;
  both talk to the network and are the parameters \<open>convert\<close> and \<open>sitemapStep\<close>), and
  ends with
  \<^verbatim>\<open>
    if (this.pageOptions.includeMarkdown) {
      documents = this.applyPathReplacements(documents);
    }
    return documents;
  \<close>
\<close>

definition scrapable_links :: "string list \<Rightarrow> string list" where
  "scrapable_links links =
     (let pdfLinks = filter (\<lambda>link. ends_with link ''.pdf'') links;
          docLinks = filter (\<lambda>link. ends_with link ''.doc'' \<or> ends_with link ''.docx'') links
      in filter (\<lambda>link. link \<notin> set pdfLinks \<and> link \<notin> set docLinks) links)"

definition built_documents ::
  "(string list \<Rightarrow> 'd list) \<Rightarrow> ('d list \<Rightarrow> 'd list) \<Rightarrow> string list \<Rightarrow> 'd list" where
  "built_documents convert sitemapStep links = sitemapStep (convert (scrapable_links links))"

definition processLinks ::
  "('d list \<Rightarrow> 'd list) \<Rightarrow> ('d list \<Rightarrow> 'd list) \<Rightarrow>
   (string list \<Rightarrow> 'd list) \<Rightarrow> ('d list \<Rightarrow> 'd list) \<Rightarrow> provider \<Rightarrow> string list \<Rightarrow> 'd list" where
  "processLinks replacePathsWithAbsolutePaths replaceImgPathsWithAbsolutePaths convert sitemapStep
     this links =
     (let documents = built_documents convert sitemapStep links
      in if includeMarkdown (p_pageOptions this) = Some True
         then applyPathReplacements replacePathsWithAbsolutePaths
                replaceImgPathsWithAbsolutePaths this documents
         else documents)"

section \<open>Property access and thrown values\<close>

text \<open>
  \<open>get_prop v k\<close> reads the property \<open>k\<close> of a value that is neither \<^verbatim>\<open>undefined\<close> nor
  \<^verbatim>\<open>null\<close>: an object gives the field (each key is listed once), a primitive has none of
  the properties read in this code (\<^verbatim>\<open>code\<close>, \<^verbatim>\<open>message\<close>, \<^verbatim>\<open>response\<close>, \<^verbatim>\<open>status\<close>,
  \<^verbatim>\<open>params\<close>, \<^verbatim>\<open>wait\<close>, \<^verbatim>\<open>content\<close>, \<^verbatim>\<open>pageStatusCode\<close>, \<^verbatim>\<open>pageError\<close>). Reading a
  property of \<^verbatim>\<open>undefined\<close> or \<^verbatim>\<open>null\<close> with \<^verbatim>\<open>.\<close> throws a \<^verbatim>\<open>TypeError\<close>; with \<^verbatim>\<open>?.\<close> it
  gives \<^verbatim>\<open>undefined\<close>. A computation that can throw has the type \<open>jsval + 'a\<close>, the
  thrown value on the left.
\<close>

fun get_prop :: "jsval \<Rightarrow> string \<Rightarrow> jsval" where
  "get_prop (JObj fs) k = (case map_of fs k of None \<Rightarrow> JUndefined | Some v \<Rightarrow> v)"
| "get_prop v k = JUndefined"

definition opt_member :: "jsval \<Rightarrow> string \<Rightarrow> jsval" where
  "opt_member v k = (if nullish v then JUndefined else get_prop v k)"

definition type_error :: "string \<Rightarrow> jsval" where
  "type_error msg = JObj [(''name'', JStr ''TypeError''), (''message'', JStr msg)]"

definition cannot_read :: "jsval \<Rightarrow> string \<Rightarrow> jsval" where
  "cannot_read v k =
     type_error (''Cannot read properties of '' @ (if v = JNull then ''null'' else ''undefined'')
       @ '' (reading '' @ [CHR 0x27] @ k @ [CHR 0x27] @ '')'')"

section \<open>Fetch clients\<close>

text \<open>
  Both scrapers return \<^verbatim>\<open>{ content, pageStatusCode, pageError }\<close>. The outcome of an
  \<^verbatim>\<open>axios\<close> call is its response, or the value it rejects with. Logging and the
  \<^verbatim>\<open>logParams\<close> bookkeeping have no part in the result and are left out.
\<close>

record scrape_result =
  content :: jsval
  pageStatusCode :: jsval
  pageError :: jsval

record axios_response =
  status :: int
  statusText :: string
  response_data :: jsval

type_synonym axios_outcome = "jsval + axios_response"

subsection \<open>fetch.ts: scrapeWithFetch\<close>

text \<open>
  \<^verbatim>\<open>
  } catch (error) {
    if (error.code === "ECONNABORTED") {
      logParams.error_message = "Request timed out";
    } else {
      logParams.error_message = error.message || error;
    }
    return { content: "", pageStatusCode: null, pageError: logParams.error_message };
  }
  \<close>
\<close>

definition scrapeWithFetch_catch :: "jsval \<Rightarrow> jsval + scrape_result" where
  "scrapeWithFetch_catch error =
     (if nullish error then Inl (cannot_read error ''code'')
      else Inr \<lparr>content = JStr [], pageStatusCode = JNull,
                pageError =
                  (if get_prop error ''code'' = JStr ''ECONNABORTED'' then JStr ''Request timed out''
                   else js_or (get_prop error ''message'') error)\<rparr>)"

definition scrapeWithFetch :: "(string \<Rightarrow> axios_outcome) \<Rightarrow> string \<Rightarrow> jsval + scrape_result" where
  "scrapeWithFetch axios_get u =
     (case axios_get u of
        Inl error \<Rightarrow> scrapeWithFetch_catch error
      | Inr response \<Rightarrow>
          if status response \<noteq> 200 then
            Inr \<lparr>content = JStr [], pageStatusCode = JNum (status response),
                 pageError = JStr (statusText response)\<rparr>
          else
            Inr \<lparr>content = response_data response, pageStatusCode = JNum (status response),
                 pageError = JNull\<rparr>)"

subsection \<open>playwright.ts: scrapeWithPlaywright\<close>

text \<open>
  What the function reads from outside: \<^verbatim>\<open>generateRequestParams\<close> (of \<^verbatim>\<open>single_url\<close>),
  the outcome of \<^verbatim>\<open>axios.post\<close> for a payload, \<^verbatim>\<open>String(v)\<close> and \<^verbatim>\<open>JSON.parse\<close>.
\<close>

record playwright_payload =
  pl_url :: string
  wait_after_load :: jsval
  pl_headers :: "(string \<times> string) list option"

record playwright_env =
  generateRequestParams :: "string \<Rightarrow> jsval + jsval"
  axios_post :: "playwright_payload \<Rightarrow> axios_outcome"
  to_String :: "jsval \<Rightarrow> string"
  JSON_parse :: "string \<Rightarrow> jsval + jsval"

text \<open>
  \<^verbatim>\<open>
    const waitParam = reqParams["params"]?.wait ?? waitFor;
    const payload = { url: url, wait_after_load: waitParam, headers: headers };
  \<close>
\<close>

definition make_payload ::
  "string \<Rightarrow> int \<Rightarrow> (string \<times> string) list option \<Rightarrow> jsval \<Rightarrow> playwright_payload" where
  "make_payload u wait_for hs reqParams =
     \<lparr>pl_url = u,
      wait_after_load = js_coalesce (opt_member (get_prop reqParams ''params'') ''wait'') (JNum wait_for),
      pl_headers = hs\<rparr>"

text \<open>
  The handler of the \<^verbatim>\<open>try\<close> around \<^verbatim>\<open>axios.post\<close>:
  \<^verbatim>\<open>
    } catch (axiosError) {
      logParams.error_message = axiosError.message || String(axiosError);
      return {
        content: "",
        pageStatusCode: axiosError.response?.status || null,
        pageError: logParams.error_message,
      };
    }
  \<close>
\<close>

definition axios_post_catch :: "playwright_env \<Rightarrow> jsval \<Rightarrow> jsval + scrape_result" where
  "axios_post_catch env axiosError =
     (if nullish axiosError then Inl (cannot_read axiosError ''message'')
      else Inr \<lparr>content = JStr [],
                pageStatusCode = js_or (opt_member (get_prop axiosError ''response'') ''status'') JNull,
                pageError = js_or (get_prop axiosError ''message'') (JStr (to_String env axiosError))\<rparr>)"

text \<open>
  The status 200 path: \<^verbatim>\<open>textData.substring\<close> needs a string, \<^verbatim>\<open>JSON.parse\<close> and
  \<^verbatim>\<open>data.content\<close> throw into the handler \<^verbatim>\<open>catch (jsonError)\<close>.
\<close>

definition json_catch :: "jsval \<Rightarrow> jsval + scrape_result" where
  "json_catch jsonError =
     (if nullish jsonError then Inl (cannot_read jsonError ''message'')
      else Inr \<lparr>content = JStr [], pageStatusCode = JNull,
                pageError = js_or (get_prop jsonError ''message'') jsonError\<rparr>)"

definition parse_rendered :: "playwright_env \<Rightarrow> jsval \<Rightarrow> jsval + scrape_result" where
  "parse_rendered env textData =
     (case textData of
        JStr text \<Rightarrow>
          (case JSON_parse env text of
             Inl jsonError \<Rightarrow> json_catch jsonError
           | Inr d \<Rightarrow>
               if nullish d then json_catch (cannot_read d ''content'')
               else Inr \<lparr>content = js_coalesce (get_prop d ''content'') (JStr []),
                         pageStatusCode = get_prop d ''pageStatusCode'',
                         pageError = get_prop d ''pageError''\<rparr>)
      | JUndefined \<Rightarrow> Inl (cannot_read textData ''substring'')
      | JNull \<Rightarrow> Inl (cannot_read textData ''substring'')
      | _ \<Rightarrow> Inl (type_error ''textData.substring is not a function''))"

text \<open>The body of the outer \<^verbatim>\<open>try\<close>; \<open>Inl\<close> is what reaches the outer \<^verbatim>\<open>catch\<close>.\<close>

definition scrapeWithPlaywright_try ::
  "playwright_env \<Rightarrow> string \<Rightarrow> int \<Rightarrow> (string \<times> string) list option \<Rightarrow> jsval + scrape_result" where
  "scrapeWithPlaywright_try env u wait_for hs =
     (case generateRequestParams env u of
        Inl error \<Rightarrow> Inl error
      | Inr reqParams \<Rightarrow>
          if nullish reqParams then Inl (cannot_read reqParams ''params'')
          else
            (case axios_post env (make_payload u wait_for hs reqParams) of
               Inl axiosError \<Rightarrow> axios_post_catch env axiosError
             | Inr response \<Rightarrow>
                 if status response \<noteq> 200 then
                   Inr \<lparr>content = JStr [],
                        pageStatusCode = opt_member (response_data response) ''pageStatusCode'',
                        pageError = opt_member (response_data response) ''pageError''\<rparr>
                 else parse_rendered env (response_data response)))"

text \<open>The outer handler is the one of \<^verbatim>\<open>scrapeWithFetch\<close>, word for word.\<close>

definition scrapeWithPlaywright_catch :: "jsval \<Rightarrow> jsval + scrape_result" where
  "scrapeWithPlaywright_catch error =
     (if nullish error then Inl (cannot_read error ''code'')
      else Inr \<lparr>content = JStr [], pageStatusCode = JNull,
                pageError =
                  (if get_prop error ''code'' = JStr ''ECONNABORTED'' then JStr ''Request timed out''
                   else js_or (get_prop error ''message'') error)\<rparr>)"

definition scrapeWithPlaywright ::
  "playwright_env \<Rightarrow> string \<Rightarrow> int \<Rightarrow> (string \<times> string) list option \<Rightarrow> jsval + scrape_result" where
  "scrapeWithPlaywright env u wait_for hs =
     (case scrapeWithPlaywright_try env u wait_for hs of
        Inl error \<Rightarrow> scrapeWithPlaywright_catch error
      | Inr r \<Rightarrow> Inr r)"

text \<open>
  Inputs for the theorems below: a request that times out in \<^verbatim>\<open>axios\<close> (code
  \<^verbatim>\<open>ECONNABORTED\<close>), a rendering service that answers 201 with a JSON text, and one that is
  rejected with status 503.
\<close>

definition timeout_error :: jsval where
  "timeout_error =
     JObj [(''code'', JStr ''ECONNABORTED''), (''message'', JStr ''timeout of 15000ms exceeded'')]"

definition timeout_env :: playwright_env where
  "timeout_env =
     \<lparr>generateRequestParams = (\<lambda>u. Inr (JObj [])),
      axios_post = (\<lambda>p. Inl timeout_error),
      to_String = (\<lambda>v. ''AxiosError''),
      JSON_parse = (\<lambda>t. Inl (JObj [(''message'', JStr ''Unexpected token'')]))\<rparr>"





section \<open>Crawl state: the key-value store and the queue\<close>

record stored_crawl =
  originUrl :: string
  sc_crawlerOptions :: crawler_options
  sc_pageOptions :: page_options
  sc_team_id :: string
  createdAt :: int
  sc_plan :: string
  robots :: "string option"

text \<open>
  The shared state a submission works on: the crawl records, the lock set and the job
  membership set of each crawl, and the scrape queue with its jobs in the order they were
  added.
\<close>

record store =
  crawls :: "string \<rightharpoonup> stored_crawl"
  locks :: "string \<Rightarrow> string set"
  crawl_jobs :: "string \<Rightarrow> string set"
  queue :: "queue_job list"

text \<open>
  The calls the controller makes on that state, in the order it makes them. The second
  argument of \<^verbatim>\<open>addScrapeJobRaw\<close> is the priority in its options object \<^verbatim>\<open>{ priority }\<close>,
  the fourth the number the controller passes after the job id.
\<close>

datatype store_call =
    SaveCrawl string stored_crawl
  | LockURL string stored_crawl string
  | LockURLs string "string list"
  | AddCrawlJob string string
  | AddCrawlJobs string "string list"
  | AddScrapeJobRaw job_data int string int
  | AddBulk "queue_job list"

text \<open>
  Modelled from the spec: the functions of \<^verbatim>\<open>lib/crawl-redis\<close>, \<^verbatim>\<open>services/queue-jobs\<close>
  and \<^verbatim>\<open>services/queue-service\<close> are imported by the controller and are not part of the
  sources at hand. Following the spec's data model, \<open>saveCrawl\<close> stores the record under
  the crawl id, \<open>lockURL\<close> and \<open>lockURLs\<close> insert into the crawl's lock set, \<open>addCrawlJob\<close>
  and \<open>addCrawlJobs\<close> insert into its membership set, \<open>addBulk\<close> appends the jobs to the
  queue as they are, and \<open>addScrapeJobRaw\<close> is the queue's \<^verbatim>\<open>enqueue(job, options)\<close>: it
  adds one job with the given data under the given id and returns that job, whose id is
  the given one. The controller hands \<^verbatim>\<open>addScrapeJobRaw\<close> two numbers, the priority of the
  options object and a fourth argument; neither the sources at hand nor the spec say
  which priority the helper gives the queued job. That is the parameter \<open>rawPriority\<close>:
  \<open>rawPriority p a\<close> is the priority of the job queued for the options priority \<open>p\<close> and
  the fourth argument \<open>a\<close>. Each call is taken to succeed: a failure of the store or of
  the queue is not part of this model.
\<close>

fun exec_call :: "(int \<Rightarrow> int \<Rightarrow> int) \<Rightarrow> store_call \<Rightarrow> store \<Rightarrow> store" where
  "exec_call rawPriority (SaveCrawl c sc) s = s\<lparr>crawls := (crawls s)(c \<mapsto> sc)\<rparr>"
| "exec_call rawPriority (LockURL c sc u) s =
     s\<lparr>locks := (locks s)(c := insert u (locks s c))\<rparr>"
| "exec_call rawPriority (LockURLs c us) s =
     s\<lparr>locks := (locks s)(c := set us \<union> locks s c)\<rparr>"
| "exec_call rawPriority (AddCrawlJob c j) s =
     s\<lparr>crawl_jobs := (crawl_jobs s)(c := insert j (crawl_jobs s c))\<rparr>"
| "exec_call rawPriority (AddCrawlJobs c js) s =
     s\<lparr>crawl_jobs := (crawl_jobs s)(c := set js \<union> crawl_jobs s c)\<rparr>"
| "exec_call rawPriority (AddScrapeJobRaw d prio jid fourth) s =
     s\<lparr>queue := queue s @
          [\<lparr>name = jid, data = d,
            opts = \<lparr>jobId = jid, priority = rawPriority prio fourth\<rparr>\<rparr>]\<rparr>"
| "exec_call rawPriority (AddBulk js) s = s\<lparr>queue := queue s @ js\<rparr>"

fun exec_calls :: "(int \<Rightarrow> int \<Rightarrow> int) \<Rightarrow> store_call list \<Rightarrow> store \<Rightarrow> store" where
  "exec_calls rawPriority [] s = s"
| "exec_calls rawPriority (c # cs) s = exec_calls rawPriority cs (exec_call rawPriority c s)"

text \<open>
  The jobs a call puts on the queue, and the test that the URL of a job is in the lock set
  of the job's crawl.
\<close>

fun enqueued_by :: "(int \<Rightarrow> int \<Rightarrow> int) \<Rightarrow> store_call \<Rightarrow> queue_job list" where
  "enqueued_by rawPriority (AddScrapeJobRaw d prio jid fourth) =
     [\<lparr>name = jid, data = d, opts = \<lparr>jobId = jid, priority = rawPriority prio fourth\<rparr>\<rparr>]"
| "enqueued_by rawPriority (AddBulk js) = js"
| "enqueued_by rawPriority c = []"

definition job_locked :: "store \<Rightarrow> queue_job \<Rightarrow> bool" where
  "job_locked s j =
     (case crawl_id (data j) of None \<Rightarrow> False | Some c \<Rightarrow> url (data j) \<in> locks s c)"

text \<open>
  \<open>locked_at_enqueue rawPriority s cs\<close>: running the calls \<open>cs\<close> from the state \<open>s\<close>, every
  job is put on the queue in a state where its URL is locked.
\<close>

fun locked_at_enqueue :: "(int \<Rightarrow> int \<Rightarrow> int) \<Rightarrow> store \<Rightarrow> store_call list \<Rightarrow> bool" where
  "locked_at_enqueue rawPriority s [] = True"
| "locked_at_enqueue rawPriority s (c # cs) =
     (list_all (job_locked s) (enqueued_by rawPriority c) \<and>
      locked_at_enqueue rawPriority (exec_call rawPriority c s) cs)"

section \<open>The crawl controller\<close>

text \<open>
  The request: the body (of which the controller itself reads \<^verbatim>\<open>url\<close>, \<^verbatim>\<open>webhookUrls\<close>,
  \<^verbatim>\<open>webhookMetadata\<close> and \<^verbatim>\<open>scrapeOptions\<close>; the record is open for the policy fields
  that \<^verbatim>\<open>legacyCrawlerOptions\<close> reads), \<^verbatim>\<open>req.auth\<close>, \<^verbatim>\<open>req.protocol\<close> and
  \<^verbatim>\<open>req.get("host")\<close>.
\<close>

record crawl_request_body =
  b_url :: string
  b_webhookUrls :: "string list option"
  b_webhookMetadata :: jsval
  b_scrapeOptions :: jsval

record 'z crawl_request =
  req_body :: "'z crawl_request_body_scheme"
  auth_team_id :: string
  auth_plan :: string
  req_protocol :: string
  req_host :: "string option"

record sitemap_entry =
  se_url :: string

text \<open>
  What the controller reads from outside during one request: the ids \<^verbatim>\<open>uuidv4()\<close> gives
  (\<open>uuidv4 n\<close> is the id of its \<open>n\<close>-th call, counted from 0), the schema parser and the
  two option converters of \<^verbatim>\<open>./types\<close>, \<^verbatim>\<open>new RegExp(x)\<close> (\<open>Some msg\<close> when it throws an
  error with that message), the outcome of \<^verbatim>\<open>crawler.getRobotsTxt()\<close> and of
  \<^verbatim>\<open>crawler.tryGetSitemap()\<close> (\<open>None\<close> is \<^verbatim>\<open>null\<close>), the clock, \<^verbatim>\<open>getJobPriority\<close> (by
  plan, team and base priority), \<^verbatim>\<open>process.env.ENV\<close>, and the priority
  \<^verbatim>\<open>addScrapeJobRaw\<close> gives the job it queues (by the priority of its options and its
  fourth argument).
\<close>

record 'z crawl_env =
  uuidv4 :: "nat \<Rightarrow> string"
  crawlRequestSchema_parse :: "'z crawl_request_body_scheme \<Rightarrow> jsval + 'z crawl_request_body_scheme"
  legacyCrawlerOptions :: "'z crawl_request_body_scheme \<Rightarrow> crawler_options"
  legacyScrapeOptions :: "jsval \<Rightarrow> page_options"
  RegExp_error :: "string \<Rightarrow> string option"
  getRobotsTxt :: "jsval + string"
  tryGetSitemap :: "sitemap_entry list option"
  Date_now :: int
  getJobPriority :: "string \<Rightarrow> string \<Rightarrow> int \<Rightarrow> int"
  process_env_ENV :: "string option"
  addScrapeJobRaw_priority :: "int \<Rightarrow> int \<Rightarrow> int"

record crawl_response_json =
  success :: bool
  res_error :: "string option"
  res_id :: "string option"
  res_url :: "string option"

record crawl_response =
  res_status :: int
  res_json :: crawl_response_json

datatype crawl_outcome = Thrown jsval | Responded crawl_response

text \<open>
  \<^verbatim>\<open>
  if (Array.isArray(crawlerOptions.includes)) {
    for (const x of crawlerOptions.includes) {
      try { new RegExp(x); }
      catch (e) { return res.status(400).json({ success: false, error: e.message }); }
    }
  }
  \<close>
  \<open>check_patterns\<close> gives the message of the first pattern that does not compile.
\<close>

fun first_regexp_error :: "(string \<Rightarrow> string option) \<Rightarrow> string list \<Rightarrow> string option" where
  "first_regexp_error re [] = None"
| "first_regexp_error re (x # xs) =
     (case re x of Some msg \<Rightarrow> Some msg | None \<Rightarrow> first_regexp_error re xs)"

definition check_patterns :: "(string \<Rightarrow> string option) \<Rightarrow> str_or_list option \<Rightarrow> string option" where
  "check_patterns re v = (case v of Some (ArrV xs) \<Rightarrow> first_regexp_error re xs | _ \<Rightarrow> None)"

definition bad_request :: "string \<Rightarrow> crawl_response" where
  "bad_request msg =
     \<lparr>res_status = 400,
      res_json = \<lparr>success = False, res_error = Some msg, res_id = None, res_url = None\<rparr>\<rparr>"

text \<open>A template literal prints \<^verbatim>\<open>undefined\<close> as the word.\<close>

definition template_str :: "string option \<Rightarrow> string" where
  "template_str v = (case v of None \<Rightarrow> ''undefined'' | Some t \<Rightarrow> t)"

definition make_stored_crawl ::
  "'z crawl_env \<Rightarrow> 'z crawl_request \<Rightarrow> 'z crawl_request_body_scheme \<Rightarrow> crawler_options \<Rightarrow>
   page_options \<Rightarrow> stored_crawl" where
  "make_stored_crawl env req body copts popts =
     \<lparr>originUrl = b_url body,
      sc_crawlerOptions = copts,
      sc_pageOptions = popts,
      sc_team_id = auth_team_id req,
      createdAt = Date_now env,
      sc_plan = auth_plan req,
      robots = (case getRobotsTxt env of Inl e \<Rightarrow> None | Inr r \<Rightarrow> Some r)\<rparr>"

text \<open>
  \<^verbatim>\<open>
  const sitemap = sc.crawlerOptions.ignoreSitemap ?? true ? null : await crawler.tryGetSitemap();
  \<close>
  (\<^verbatim>\<open>??\<close> binds tighter than the conditional operator.)
\<close>

definition fetched_sitemap :: "'z crawl_env \<Rightarrow> crawler_options \<Rightarrow> sitemap_entry list option" where
  "fetched_sitemap env copts =
     (if coalesce (ignoreSitemap copts) True then None else tryGetSitemap env)"

text \<open>
  The sitemap branch. \<^verbatim>\<open>jobPriority\<close> is assigned from \<^verbatim>\<open>getJobPriority\<close> when the
  sitemap has more than 1000 entries; each job is then built with
  \<^verbatim>\<open>opts: { jobId: uuid, priority: 20 }\<close>.
\<close>

definition sitemap_jobPriority :: "'z crawl_env \<Rightarrow> 'z crawl_request \<Rightarrow> sitemap_entry list \<Rightarrow> int" where
  "sitemap_jobPriority env req entries =
     (if length entries > 1000 then getJobPriority env (auth_plan req) (auth_team_id req) 21
      else 20)"

definition sitemap_job ::
  "'z crawl_request \<Rightarrow> 'z crawl_request_body_scheme \<Rightarrow> string \<Rightarrow> crawler_options \<Rightarrow> page_options \<Rightarrow>
   string \<Rightarrow> sitemap_entry \<Rightarrow> queue_job" where
  "sitemap_job req body c copts popts uuid x =
     \<lparr>name = uuid,
      data =
        \<lparr>url = se_url x, mode = single_urls, team_id = auth_team_id req,
         crawlerOptions = Some copts, pageOptions = Some popts,
         webhookUrls = b_webhookUrls body, webhookMetadata = b_webhookMetadata body,
         origin = Some ''api'', crawl_id = Some c, sitemapped = Some True, v1 = Some True,
         is_scrape = None\<rparr>,
      opts = \<lparr>jobId = uuid, priority = 20\<rparr>\<rparr>"

definition sitemap_jobs ::
  "'z crawl_env \<Rightarrow> 'z crawl_request \<Rightarrow> 'z crawl_request_body_scheme \<Rightarrow> string \<Rightarrow> crawler_options \<Rightarrow>
   page_options \<Rightarrow> sitemap_entry list \<Rightarrow> queue_job list" where
  "sitemap_jobs env req body c copts popts entries =
     map (\<lambda>(i, x). sitemap_job req body c copts popts (uuidv4 env (Suc i)) x)
       (List.enumerate 0 entries)"

definition seed_data ::
  "'z crawl_request \<Rightarrow> 'z crawl_request_body_scheme \<Rightarrow> string \<Rightarrow> crawler_options \<Rightarrow> page_options \<Rightarrow>
   job_data" where
  "seed_data req body c copts popts =
     \<lparr>url = b_url body, mode = single_urls, team_id = auth_team_id req,
      crawlerOptions = Some copts, pageOptions = Some popts,
      webhookUrls = b_webhookUrls body, webhookMetadata = b_webhookMetadata body,
      origin = Some ''api'', crawl_id = Some c, sitemapped = None, v1 = Some True,
      is_scrape = None\<rparr>"

text \<open>
  The calls after validation: \<^verbatim>\<open>saveCrawl\<close>, then either \<^verbatim>\<open>lockURLs\<close>, \<^verbatim>\<open>addCrawlJobs\<close>,
  \<^verbatim>\<open>addBulk\<close> for a sitemap that is not \<^verbatim>\<open>null\<close> and not empty, or \<^verbatim>\<open>lockURL\<close>,
  \<^verbatim>\<open>addScrapeJobRaw(..., { priority: 15 }, uuidv4(), 10)\<close>, \<^verbatim>\<open>addCrawlJob(id, job.id)\<close>.
\<close>

definition sitemap_calls ::
  "'z crawl_env \<Rightarrow> 'z crawl_request \<Rightarrow> 'z crawl_request_body_scheme \<Rightarrow> string \<Rightarrow> crawler_options \<Rightarrow>
   page_options \<Rightarrow> sitemap_entry list \<Rightarrow> store_call list" where
  "sitemap_calls env req body c copts popts entries =
     (let jobPriority = sitemap_jobPriority env req entries;
          jobs = sitemap_jobs env req body c copts popts entries
      in [LockURLs c (map (\<lambda>x. url (data x)) jobs),
          AddCrawlJobs c (map (\<lambda>x. jobId (opts x)) jobs),
          AddBulk jobs])"

definition seed_calls ::
  "'z crawl_env \<Rightarrow> 'z crawl_request \<Rightarrow> 'z crawl_request_body_scheme \<Rightarrow> string \<Rightarrow> crawler_options \<Rightarrow>
   page_options \<Rightarrow> stored_crawl \<Rightarrow> store_call list" where
  "seed_calls env req body c copts popts sc =
     [LockURL c sc (b_url body),
      AddScrapeJobRaw (seed_data req body c copts popts) 15 (uuidv4 env 1) 10,
      AddCrawlJob c (uuidv4 env 1)]"

definition crawl_calls ::
  "'z crawl_env \<Rightarrow> 'z crawl_request \<Rightarrow> 'z crawl_request_body_scheme \<Rightarrow> string \<Rightarrow> crawler_options \<Rightarrow>
   page_options \<Rightarrow> store_call list" where
  "crawl_calls env req body c copts popts =
     (let sc = make_stored_crawl env req body copts popts
      in SaveCrawl c sc #
         (case fetched_sitemap env copts of
            None \<Rightarrow> seed_calls env req body c copts popts sc
          | Some entries \<Rightarrow>
              if length entries > 0 then sitemap_calls env req body c copts popts entries
              else seed_calls env req body c copts popts sc))"

definition crawl_accepted :: "'z crawl_env \<Rightarrow> 'z crawl_request \<Rightarrow> string \<Rightarrow> crawl_response" where
  "crawl_accepted env req c =
     (let protocol = (if process_env_ENV env = Some ''local'' then req_protocol req else ''https'')
      in \<lparr>res_status = 200,
          res_json =
            \<lparr>success = True, res_error = None, res_id = Some c,
             res_url = Some (protocol @ ''://'' @ template_str (req_host req) @ ''/v1/crawl/'' @ c)\<rparr>\<rparr>)"

definition crawlController ::
  "'z crawl_env \<Rightarrow> 'z crawl_request \<Rightarrow> store \<Rightarrow> crawl_outcome \<times> store" where
  "crawlController env req s =
     (case crawlRequestSchema_parse env (req_body req) of
        Inl e \<Rightarrow> (Thrown e, s)
      | Inr body \<Rightarrow>
          (let c = uuidv4 env 0;
               copts = legacyCrawlerOptions env body;
               popts = legacyScrapeOptions env (b_scrapeOptions body)
           in case check_patterns (RegExp_error env) (co_includes copts) of
                Some msg \<Rightarrow> (Responded (bad_request msg), s)
              | None \<Rightarrow>
                  (case check_patterns (RegExp_error env) (co_excludes copts) of
                     Some msg \<Rightarrow> (Responded (bad_request msg), s)
                   | None \<Rightarrow>
                       (Responded (crawl_accepted env req c),
                        exec_calls (addScrapeJobRaw_priority env)
                          (crawl_calls env req body c copts popts) s))))"

text \<open>
  A submission is validated when the schema parser accepts the body and every pattern of
  \<^verbatim>\<open>includes\<close> and \<^verbatim>\<open>excludes\<close> compiles; \<open>validated_calls\<close> are the calls the controller
  then makes.
\<close>

definition validated ::
  "'z crawl_env \<Rightarrow> 'z crawl_request \<Rightarrow> 'z crawl_request_body_scheme \<Rightarrow> bool" where
  "validated env req body =
     (crawlRequestSchema_parse env (req_body req) = Inr body \<and>
      check_patterns (RegExp_error env) (co_includes (legacyCrawlerOptions env body)) = None \<and>
      check_patterns (RegExp_error env) (co_excludes (legacyCrawlerOptions env body)) = None)"

definition validated_calls ::
  "'z crawl_env \<Rightarrow> 'z crawl_request \<Rightarrow> 'z crawl_request_body_scheme \<Rightarrow> store_call list" where
  "validated_calls env req body =
     crawl_calls env req body (uuidv4 env 0) (legacyCrawlerOptions env body)
       (legacyScrapeOptions env (b_scrapeOptions body))"

section \<open>Example inputs\<close>

definition empty_store :: store where
  "empty_store = \<lparr>crawls = Map.empty, locks = (\<lambda>c. {}), crawl_jobs = (\<lambda>c. {}), queue = []\<rparr>"

definition no_crawler_options :: crawler_options where
  "no_crawler_options =
     \<lparr>co_includes = None, co_excludes = None, maxCrawledLinks = None, maxDepth = None,
      returnOnlyUrls = None, limit = None, co_replaceAllPathsWithAbsolutePaths = None,
      co_mode = None, ignoreSitemap = None, allowExternalLinks = None\<rparr>"

definition with_sitemap_options :: crawler_options where
  "with_sitemap_options = no_crawler_options\<lparr>ignoreSitemap := Some False\<rparr>"

definition bad_includes_options :: crawler_options where
  "bad_includes_options = no_crawler_options\<lparr>co_includes := Some (ArrV [''^/docs'', ''(''])\<rparr>"

definition ex_body :: crawl_request_body where
  "ex_body =
     \<lparr>b_url = ''https://ex.com/a'', b_webhookUrls = None, b_webhookMetadata = JUndefined,
      b_scrapeOptions = JUndefined\<rparr>"

definition ex_req :: "unit crawl_request" where
  "ex_req =
     \<lparr>req_body = ex_body, auth_team_id = ''team-1'', auth_plan = ''growth'',
      req_protocol = ''http'', req_host = Some ''api.ex.com''\<rparr>"

text \<open>
  An environment for the examples: the ids are \<^verbatim>\<open>id-\<close>, \<^verbatim>\<open>id-i\<close>, \<^verbatim>\<open>id-ii\<close>, ..., the only
  pattern that does not compile is \<^verbatim>\<open>(\<close>, \<^verbatim>\<open>robots.txt\<close> cannot be fetched, the priority
  policy answers 25, and \<^verbatim>\<open>addScrapeJobRaw\<close> queues its job under its fourth argument (no
  statement below depends on that choice).
\<close>

definition ex_env ::
  "crawler_options \<Rightarrow> sitemap_entry list option \<Rightarrow> string option \<Rightarrow> unit crawl_env" where
  "ex_env copts sm e =
     \<lparr>uuidv4 = (\<lambda>n. ''id-'' @ replicate n CHR ''i''),
      crawlRequestSchema_parse = Inr,
      legacyCrawlerOptions = (\<lambda>b. copts),
      legacyScrapeOptions = (\<lambda>v. empty_page_options),
      RegExp_error = (\<lambda>x. if x = ''('' then Some ''Unterminated group'' else None),
      getRobotsTxt = Inl (JObj []),
      tryGetSitemap = sm,
      Date_now = 0,
      getJobPriority = (\<lambda>p t b. 25),
      process_env_ENV = e,
      addScrapeJobRaw_priority = (\<lambda>p a. a)\<rparr>"

definition small_sitemap :: "sitemap_entry list" where
  "small_sitemap = [\<lparr>se_url = ''https://ex.com/x''\<rparr>, \<lparr>se_url = ''https://ex.com/y''\<rparr>]"

definition large_sitemap :: "sitemap_entry list" where
  "large_sitemap = map (\<lambda>n. \<lparr>se_url = ''https://ex.com/'' @ replicate n CHR ''p''\<rparr>) [0..<1001]"

definition large_env :: "unit crawl_env" where
  "large_env = ex_env with_sitemap_options (Some large_sitemap) None"

text \<open>
  Options that ask for raw HTML without markdown and for absolute paths, and stand-ins
  for the rewriting functions and the scraper that mark what they touched.
\<close>

definition html_only_options :: web_scraper_options where
  "html_only_options =
     \<lparr>o_jobId = ''job-1'', o_mode = single_urls, o_urls = [''https://ex.com/a''],
      o_crawlerOptions = None,
      o_pageOptions =
        Some (empty_page_options\<lparr>includeMarkdown := Some False, includeRawHtml := Some True,
                replaceAllPathsWithAbsolutePaths := Some True\<rparr>),
      o_webhookUrls = None, o_webhookMetadata = JUndefined, o_bullJobId = None,
      o_crawlId = None, o_priority = None, o_teamId = None, o_concurrentRequests = None\<rparr>"

definition markdown_options :: web_scraper_options where
  "markdown_options =
     html_only_options\<lparr>o_pageOptions :=
        Some (empty_page_options\<lparr>replaceAllPathsWithAbsolutePaths := Some True\<rparr>)\<rparr>"

definition mark_paths :: "string list \<Rightarrow> string list" where
  "mark_paths ds = map (\<lambda>d. ''abs:'' @ d) ds"

definition mark_imgs :: "string list \<Rightarrow> string list" where
  "mark_imgs ds = map (\<lambda>d. ''img:'' @ d) ds"

definition ex_convert :: "string list \<Rightarrow> string list" where
  "ex_convert links = map (\<lambda>u. ''doc:'' @ u) links"

definition ex_sitemapStep :: "string list \<Rightarrow> string list" where
  "ex_sitemapStep ds = ds"

text \<open>A job of a crawl and a job without a crawl, both asking for no raw HTML.\<close>

definition plain_job :: queue_job where
  "plain_job =
     \<lparr>name = ''job-1'',
      data =
        \<lparr>url = ''https://ex.com/a'', mode = single_urls, team_id = ''team-1'',
         crawlerOptions = None,
         pageOptions = Some (empty_page_options\<lparr>includeRawHtml := Some False\<rparr>),
         webhookUrls = None, webhookMetadata = JUndefined, origin = Some ''api'',
         crawl_id = None, sitemapped = None, v1 = Some True, is_scrape = None\<rparr>,
      opts = \<lparr>jobId = ''job-1'', priority = 10\<rparr>\<rparr>"

definition crawl_job :: queue_job where
  "crawl_job = plain_job\<lparr>data := (data plain_job)\<lparr>crawl_id := Some ''crawl-1''\<rparr>\<rparr>"

section \<open>Properties of URL normalisation\<close>

lemma replace_first_length:
  "includes_str s pat \<Longrightarrow>
     length (replace_first s pat rep) + length pat = length s + length rep"
proof (induction s)
  case Nil
  then show ?case by simp
next
  case (Cons c cs)
  show ?case
  proof (cases "starts_with (c # cs) pat")
    case True
    then have "length (take (length pat) (c # cs)) = length pat"
      unfolding starts_with_def by simp
    then have "length pat \<le> length (c # cs)"
      unfolding length_take by linarith
    with True show ?thesis by simp
  next
    case False
    with Cons show ?thesis by simp
  qed
qed

lemma normalizeUrl_shrinks:
  assumes "includes_str u ''//www.''"
  shows "length (normalizeUrl u) + 4 = length u"
  using replace_first_length [OF assms, of "''//''"] assms
  by (simp add: normalizeUrl_def)

text \<open>
  C4 (counterexample). \<open>normalizeUrl\<close> is not idempotent: on
  \<^verbatim>\<open>http://www.www.example.com\<close> the first call leaves \<^verbatim>\<open>http://www.example.com\<close>,
  which the second call shortens again.
\<close>

theorem normalizeUrl_not_idempotent:
  "normalizeUrl url_double_www = ''http://www.example.com'' \<and>
   normalizeUrl (normalizeUrl url_double_www) = ''http://example.com'' \<and>
   normalizeUrl (normalizeUrl url_double_www) \<noteq> normalizeUrl url_double_www"
  by (simp add: normalizeUrl_def url_double_www_def starts_with_def)

text \<open>
  C4 (amended). \<open>normalizeUrl\<close> removes the first occurrence of \<^verbatim>\<open>//www.\<close> only. A second
  application changes nothing exactly when the first result holds no \<^verbatim>\<open>//www.\<close> any
  more; a URL without \<^verbatim>\<open>//www.\<close> is returned as it is.
\<close>

theorem normalizeUrl_idempotent_iff:
  "(normalizeUrl (normalizeUrl u) = normalizeUrl u) = (\<not> includes_str (normalizeUrl u) ''//www.'')"
proof (cases "includes_str (normalizeUrl u) ''//www.''")
  case True
  from normalizeUrl_shrinks [OF True]
  have "length (normalizeUrl (normalizeUrl u)) \<noteq> length (normalizeUrl u)" by simp
  then have "normalizeUrl (normalizeUrl u) \<noteq> normalizeUrl u" by metis
  with True show ?thesis by simp
next
  case False
  then show ?thesis by (simp add: normalizeUrl_def)
qed

theorem normalizeUrl_idempotent_iff_witness:
  "normalizeUrl (normalizeUrl ''https://www.example.com/a'') = normalizeUrl ''https://www.example.com/a'' \<and>
   \<not> includes_str (normalizeUrl ''https://www.example.com/a'') ''//www.''"
proof -
  have n: "\<not> includes_str (normalizeUrl ''https://www.example.com/a'') ''//www.''"
    by (simp add: normalizeUrl_def starts_with_def)
  with normalizeUrl_idempotent_iff [of "''https://www.example.com/a''"] show ?thesis
    by blast
qed

section \<open>Properties of the pipeline's page options\<close>

text \<open>
  C10. A job that carries a crawl id is run with \<^verbatim>\<open>includeRawHtml\<close> forced to true, whatever
  its own page options say: that holds of the page options handed to \<^verbatim>\<open>runWebScraper\<close> and
  of the ones the provider keeps after \<^verbatim>\<open>setOptions\<close>; all other fields are the job's own.
  A job without a crawl id keeps its own page options, \<^verbatim>\<open>includeRawHtml\<close> included.
\<close>

theorem startWebScraperPipeline_includeRawHtml:
  "(crawl_id (data job) = Some c \<and> c \<noteq> [] \<longrightarrow>
      r_pageOptions (startWebScraperPipeline_params job) =
        (spread_page_options (pageOptions (data job)))\<lparr>includeRawHtml := Some True\<rparr> \<and>
      includeRawHtml (p_pageOptions (setOptions (runWebScraper_options
        (startWebScraperPipeline_params job)))) = Some True) \<and>
   (crawl_id (data job) = None \<longrightarrow>
      r_pageOptions (startWebScraperPipeline_params job) =
        spread_page_options (pageOptions (data job)))"
  by (simp add: startWebScraperPipeline_params_def truthy_str_def runWebScraper_options_def
      setOptions_def po_field_def coalesce_def)

theorem startWebScraperPipeline_includeRawHtml_witness:
  "includeRawHtml (spread_page_options (pageOptions (data crawl_job))) = Some False \<and>
   includeRawHtml (r_pageOptions (startWebScraperPipeline_params crawl_job)) = Some True \<and>
   includeRawHtml (p_pageOptions (setOptions (runWebScraper_options
     (startWebScraperPipeline_params crawl_job)))) = Some True \<and>
   includeRawHtml (r_pageOptions (startWebScraperPipeline_params plain_job)) = Some False"
proof -
  have c: "crawl_id (data crawl_job) = Some ''crawl-1'' \<and> ''crawl-1'' \<noteq> []"
    by (simp add: crawl_job_def)
  have p: "crawl_id (data plain_job) = None"
    by (simp add: plain_job_def)
  have o: "includeRawHtml (spread_page_options (pageOptions (data crawl_job))) = Some False"
          "includeRawHtml (spread_page_options (pageOptions (data plain_job))) = Some False"
    by (simp_all add: crawl_job_def plain_job_def spread_page_options_def empty_page_options_def)
  from c p o startWebScraperPipeline_includeRawHtml [of crawl_job "''crawl-1''"]
    startWebScraperPipeline_includeRawHtml [of plain_job "''crawl-1''"]
  show ?thesis by simp
qed

section \<open>Properties of processLinks\<close>

text \<open>
  C2 (counterexample). With \<^verbatim>\<open>includeMarkdown: false\<close> and
  \<^verbatim>\<open>replaceAllPathsWithAbsolutePaths: true\<close> the provider has its rewriting flag set, and
  \<^verbatim>\<open>processLinks\<close> returns the built document as it is: no rewriting function was applied.
\<close>

theorem processLinks_no_rewrite_without_markdown:
  "p_replaceAllPathsWithAbsolutePaths (setOptions html_only_options) \<and>
   processLinks mark_paths mark_imgs ex_convert ex_sitemapStep (setOptions html_only_options)
     [''https://ex.com/a''] = [''doc:https://ex.com/a''] \<and>
   mark_paths [''doc:https://ex.com/a''] = [''abs:doc:https://ex.com/a'']"
  by (simp add: processLinks_def setOptions_def html_only_options_def po_field_def co_field_def
      coalesce_def empty_page_options_def built_documents_def scrapable_links_def
      ends_with_def starts_with_def ex_convert_def ex_sitemapStep_def mark_paths_def)

text \<open>
  C2 (amended). Path rewrites are applied to the built documents only when markdown is
  requested (\<^verbatim>\<open>pageOptions.includeMarkdown\<close>, true when absent). Then the image paths are
  always rewritten, and all paths are rewritten first when
  \<^verbatim>\<open>replaceAllPathsWithAbsolutePaths\<close> is set in the crawler options, or else in the page
  options. When \<^verbatim>\<open>includeMarkdown\<close> is false the built documents are returned unchanged.
\<close>

theorem processLinks_rewrites_with_markdown:
  "processLinks rp ri convert sitemapStep (setOptions options) links =
     (if coalesce (po_field includeMarkdown options) True
      then ri (if coalesce (co_field co_replaceAllPathsWithAbsolutePaths options)
                    (coalesce (po_field replaceAllPathsWithAbsolutePaths options) False)
               then rp (built_documents convert sitemapStep links)
               else built_documents convert sitemapStep links)
      else built_documents convert sitemapStep links)"
  by (simp add: processLinks_def setOptions_def applyPathReplacements_def Let_def)

theorem processLinks_rewrites_with_markdown_witness:
  "processLinks mark_paths mark_imgs ex_convert ex_sitemapStep (setOptions markdown_options)
     [''https://ex.com/a''] = [''img:abs:doc:https://ex.com/a'']"
  using processLinks_rewrites_with_markdown
    [of mark_paths mark_imgs ex_convert ex_sitemapStep markdown_options "[''https://ex.com/a'']"]
  by (simp add: markdown_options_def html_only_options_def po_field_def co_field_def
      coalesce_def empty_page_options_def built_documents_def scrapable_links_def
      ends_with_def starts_with_def ex_convert_def ex_sitemapStep_def mark_paths_def
      mark_imgs_def)

section \<open>Properties of the fetch clients\<close>

lemma scrapeWithFetch_timeout:
  "axios_get u = Inl error \<Longrightarrow> get_prop error ''code'' = JStr ''ECONNABORTED'' \<Longrightarrow>
   scrapeWithFetch axios_get u =
     Inr \<lparr>content = JStr [], pageStatusCode = JNull, pageError = JStr ''Request timed out''\<rparr>"
  by (cases error) (simp_all add: scrapeWithFetch_def scrapeWithFetch_catch_def nullish_def)

lemma scrapeWithFetch_other_error:
  "axios_get u = Inl error \<Longrightarrow> \<not> nullish error \<Longrightarrow>
   get_prop error ''code'' \<noteq> JStr ''ECONNABORTED'' \<Longrightarrow>
   scrapeWithFetch axios_get u =
     Inr \<lparr>content = JStr [], pageStatusCode = JNull,
          pageError = js_or (get_prop error ''message'') error\<rparr>"
  by (simp add: scrapeWithFetch_def scrapeWithFetch_catch_def)

text \<open>
  C3 (the code at the failing input). A request of \<^verbatim>\<open>scrapeWithPlaywright\<close> that
  \<^verbatim>\<open>axios.post\<close> rejects with code \<^verbatim>\<open>ECONNABORTED\<close> is answered by the handler around
  \<^verbatim>\<open>axios.post\<close>, which passes the message of the error on; the outer handler, which would
  say \<^verbatim>\<open>Request timed out\<close>, is not reached. \<^verbatim>\<open>scrapeWithFetch\<close> answers the same error
  with \<^verbatim>\<open>Request timed out\<close>.
\<close>

theorem scrapeWithPlaywright_timeout_message:
  "get_prop timeout_error ''code'' = JStr ''ECONNABORTED'' \<and>
   scrapeWithPlaywright timeout_env ''https://ex.com/a'' 0 None =
     Inr \<lparr>content = JStr [], pageStatusCode = JNull,
          pageError = JStr ''timeout of 15000ms exceeded''\<rparr> \<and>
   scrapeWithFetch (\<lambda>u. Inl timeout_error) ''https://ex.com/a'' =
     Inr \<lparr>content = JStr [], pageStatusCode = JNull, pageError = JStr ''Request timed out''\<rparr>"
  by (simp add: scrapeWithPlaywright_def scrapeWithPlaywright_try_def timeout_env_def
      timeout_error_def axios_post_catch_def nullish_def js_or_def opt_member_def
      scrapeWithFetch_def scrapeWithFetch_catch_def)




section \<open>Properties of the crawl controller\<close>

lemma crawlController_validated:
  "validated env req body \<Longrightarrow>
   crawlController env req s =
     (Responded (crawl_accepted env req (uuidv4 env 0)),
      exec_calls (addScrapeJobRaw_priority env) (validated_calls env req body) s)"
  by (simp add: validated_def crawlController_def validated_calls_def Let_def)

lemma validated_ex_env:
  "validated (ex_env no_crawler_options sm e) ex_req ex_body"
  "validated (ex_env with_sitemap_options sm e) ex_req ex_body"
  by (simp_all add: validated_def ex_env_def ex_req_def no_crawler_options_def
      with_sitemap_options_def check_patterns_def)

lemma ex_env_fields:
  "uuidv4 (ex_env copts sm e) n = ''id-'' @ replicate n CHR ''i''"
  "legacyCrawlerOptions (ex_env copts sm e) b = copts"
  "legacyScrapeOptions (ex_env copts sm e) v = empty_page_options"
  "tryGetSitemap (ex_env copts sm e) = sm"
  "process_env_ENV (ex_env copts sm e) = e"
  "getJobPriority (ex_env copts sm e) p t b' = 25"
  "crawlRequestSchema_parse (ex_env copts sm e) b = Inr b"
  "addScrapeJobRaw_priority (ex_env copts sm e) p' a = a"
  by (simp_all add: ex_env_def)

subsection \<open>The sitemap branch\<close>

lemma sitemap_jobs_crawl_id:
  "j \<in> set (sitemap_jobs env req body c copts popts entries) \<Longrightarrow> crawl_id (data j) = Some c"
  by (auto simp: sitemap_jobs_def sitemap_job_def)

lemma sitemap_jobs_priority:
  "j \<in> set (sitemap_jobs env req body c copts popts entries) \<Longrightarrow> priority (opts j) = 20"
  by (auto simp: sitemap_jobs_def sitemap_job_def)

lemma length_sitemap_jobs:
  "length (sitemap_jobs env req body c copts popts entries) = length entries"
  by (simp add: sitemap_jobs_def)

lemma sitemap_jobs_locked:
  assumes "url ` data ` set (sitemap_jobs env req body c copts popts entries) \<subseteq> locks s c"
  shows "list_all (job_locked s) (sitemap_jobs env req body c copts popts entries)"
  unfolding list_all_iff
proof
  fix j assume j: "j \<in> set (sitemap_jobs env req body c copts popts entries)"
  then have "url (data j) \<in> locks s c" using assms by blast
  with sitemap_jobs_crawl_id [OF j] show "job_locked s j" by (simp add: job_locked_def)
qed

lemma locked_at_enqueue_sitemap_calls:
  "locked_at_enqueue rp s (sitemap_calls env req body c copts popts entries)"
proof -
  let ?jobs = "sitemap_jobs env req body c copts popts entries"
  let ?s2 = "exec_call rp (AddCrawlJobs c (map (\<lambda>x. jobId (opts x)) ?jobs))
               (exec_call rp (LockURLs c (map (\<lambda>x. url (data x)) ?jobs)) s)"
  have "url ` data ` set ?jobs \<subseteq> locks ?s2 c" by auto
  then have "list_all (job_locked ?s2) ?jobs" by (rule sitemap_jobs_locked)
  then show ?thesis by (simp add: sitemap_calls_def Let_def)
qed

lemma locked_at_enqueue_seed_calls:
  "locked_at_enqueue rp s (seed_calls env req body c copts popts sc)"
  by (simp add: seed_calls_def job_locked_def seed_data_def)

lemma locked_at_enqueue_crawl_calls:
  "locked_at_enqueue rp s (crawl_calls env req body c copts popts)"
  by (simp add: crawl_calls_def Let_def locked_at_enqueue_sitemap_calls
      locked_at_enqueue_seed_calls split: option.splits)

lemma queue_sitemap_branch:
  assumes "fetched_sitemap env copts = Some entries" and "entries \<noteq> []"
  shows "queue (exec_calls rp (crawl_calls env req body c copts popts) s) =
           queue s @ sitemap_jobs env req body c copts popts entries"
  using assms by (simp add: crawl_calls_def Let_def sitemap_calls_def)

text \<open>
  C1 (the code at the failing input). A sitemap of 1001 entries for which the priority
  policy answers 25: \<^verbatim>\<open>jobPriority\<close> is 25, and each of the 1001 jobs is put on the queue
  with priority 20, the constant written in the job's \<^verbatim>\<open>opts\<close>.
\<close>

theorem large_sitemap_enqueued_at_20:
  "length large_sitemap = 1001 \<and>
   sitemap_jobPriority large_env ex_req large_sitemap = 25 \<and>
   length (queue (snd (crawlController large_env ex_req empty_store))) = 1001 \<and>
   list_all (\<lambda>j. priority (opts j) = 20)
     (queue (snd (crawlController large_env ex_req empty_store)))"
proof -
  let ?popts = "legacyScrapeOptions large_env (b_scrapeOptions ex_body)"
  let ?jobs = "sitemap_jobs large_env ex_req ex_body (uuidv4 large_env 0) with_sitemap_options
                 ?popts large_sitemap"
  have len: "length large_sitemap = 1001"
    by (simp add: large_sitemap_def)
  then have ne: "large_sitemap \<noteq> []" by auto
  have prio: "sitemap_jobPriority large_env ex_req large_sitemap = 25"
    by (simp add: sitemap_jobPriority_def len large_env_def ex_env_fields)
  have v: "validated large_env ex_req ex_body"
    unfolding large_env_def by (rule validated_ex_env)
  have f: "fetched_sitemap large_env with_sitemap_options = Some large_sitemap"
    by (simp add: fetched_sitemap_def large_env_def ex_env_fields with_sitemap_options_def
        coalesce_def)
  have c: "legacyCrawlerOptions large_env ex_body = with_sitemap_options"
    by (simp add: large_env_def ex_env_fields)
  have q: "queue (snd (crawlController large_env ex_req empty_store)) = ?jobs"
    using queue_sitemap_branch [OF f ne, of "addScrapeJobRaw_priority large_env" ex_req ex_body
        "uuidv4 large_env 0" ?popts empty_store]
    by (simp add: crawlController_validated [OF v] validated_calls_def c empty_store_def)
  have "list_all (\<lambda>j. priority (opts j) = 20) ?jobs"
    unfolding list_all_iff using sitemap_jobs_priority by blast
  with len prio q show ?thesis by (simp add: length_sitemap_jobs)
qed

text \<open>
  C5. For every validated submission the controller's calls run so that each job, on the
  sitemap path as on the seed path, is put on the queue in a state where its URL is in
  the lock set of its crawl: \<^verbatim>\<open>lockURLs\<close> comes before \<^verbatim>\<open>addBulk\<close>, \<^verbatim>\<open>lockURL\<close> before
  \<^verbatim>\<open>addScrapeJobRaw\<close>.
\<close>

theorem crawl_locks_before_enqueue:
  assumes "validated env req body"
  shows "snd (crawlController env req s) =
           exec_calls (addScrapeJobRaw_priority env) (validated_calls env req body) s \<and>
         locked_at_enqueue (addScrapeJobRaw_priority env) s (validated_calls env req body)"
  using crawlController_validated [OF assms, of s]
  by (simp add: validated_calls_def locked_at_enqueue_crawl_calls)

theorem crawl_locks_before_enqueue_witness:
  "locked_at_enqueue (addScrapeJobRaw_priority (ex_env no_crawler_options None None)) empty_store
     (validated_calls (ex_env no_crawler_options None None) ex_req ex_body) \<and>
   locked_at_enqueue
     (addScrapeJobRaw_priority (ex_env with_sitemap_options (Some small_sitemap) None)) empty_store
     (validated_calls (ex_env with_sitemap_options (Some small_sitemap) None) ex_req ex_body) \<and>
   map (\<lambda>j. url (data j))
     (queue (snd (crawlController (ex_env with_sitemap_options (Some small_sitemap) None)
        ex_req empty_store))) = [''https://ex.com/x'', ''https://ex.com/y''] \<and>
   locks (snd (crawlController (ex_env with_sitemap_options (Some small_sitemap) None)
        ex_req empty_store)) ''id-'' = {''https://ex.com/x'', ''https://ex.com/y''}"
proof -
  have q: "map (\<lambda>j. url (data j))
     (queue (exec_calls (addScrapeJobRaw_priority (ex_env with_sitemap_options (Some small_sitemap) None))
        (validated_calls (ex_env with_sitemap_options (Some small_sitemap) None) ex_req ex_body) empty_store))
       = [''https://ex.com/x'', ''https://ex.com/y'']"
    "locks (exec_calls (addScrapeJobRaw_priority (ex_env with_sitemap_options (Some small_sitemap) None))
        (validated_calls (ex_env with_sitemap_options (Some small_sitemap) None) ex_req ex_body) empty_store) ''id-''
       = {''https://ex.com/x'', ''https://ex.com/y''}"
    by (simp_all add: validated_calls_def crawl_calls_def Let_def fetched_sitemap_def ex_env_fields
        with_sitemap_options_def coalesce_def small_sitemap_def sitemap_calls_def
        sitemap_jobs_def sitemap_job_def empty_store_def enumerate_eq_zip upt_rec)
  from crawl_locks_before_enqueue [OF validated_ex_env(1), of None None empty_store]
    crawl_locks_before_enqueue [OF validated_ex_env(2), of "Some small_sitemap" None empty_store]
    q
  show ?thesis by simp
qed

text \<open>
  The seed branch. For a validated submission whose \<^verbatim>\<open>ignoreSitemap\<close> is true or absent,
  or whose sitemap fetch gives \<^verbatim>\<open>null\<close> or an empty list, the controller stores the crawl,
  locks the origin URL, hands \<^verbatim>\<open>addScrapeJobRaw\<close> the seed data with the options
  \<^verbatim>\<open>{ priority: 15 }\<close> and the fourth argument 10, and records the job's id. The queue
  gains exactly one job, for the origin URL and in mode \<^verbatim>\<open>single_urls\<close>; its priority is
  the one \<^verbatim>\<open>addScrapeJobRaw\<close> makes of 15 and 10. The origin URL is in the lock set of the
  crawl and the job's id in its membership set.
\<close>

lemma seed_branch:
  assumes "validated env req body"
    and "ignoreSitemap (legacyCrawlerOptions env body) \<noteq> Some False \<or>
         tryGetSitemap env = None \<or> tryGetSitemap env = Some []"
  shows "validated_calls env req body =
           [SaveCrawl (uuidv4 env 0)
              (make_stored_crawl env req body (legacyCrawlerOptions env body)
                 (legacyScrapeOptions env (b_scrapeOptions body))),
            LockURL (uuidv4 env 0)
              (make_stored_crawl env req body (legacyCrawlerOptions env body)
                 (legacyScrapeOptions env (b_scrapeOptions body)))
              (b_url body),
            AddScrapeJobRaw
              (seed_data req body (uuidv4 env 0) (legacyCrawlerOptions env body)
                 (legacyScrapeOptions env (b_scrapeOptions body)))
              15 (uuidv4 env 1) 10,
            AddCrawlJob (uuidv4 env 0) (uuidv4 env 1)] \<and>
         queue (snd (crawlController env req s)) =
           queue s @
           [\<lparr>name = uuidv4 env 1,
             data = seed_data req body (uuidv4 env 0) (legacyCrawlerOptions env body)
                      (legacyScrapeOptions env (b_scrapeOptions body)),
             opts = \<lparr>jobId = uuidv4 env 1, priority = addScrapeJobRaw_priority env 15 10\<rparr>\<rparr>] \<and>
         url (seed_data req body (uuidv4 env 0) (legacyCrawlerOptions env body)
                (legacyScrapeOptions env (b_scrapeOptions body))) = b_url body \<and>
         mode (seed_data req body (uuidv4 env 0) (legacyCrawlerOptions env body)
                (legacyScrapeOptions env (b_scrapeOptions body))) = single_urls \<and>
         crawl_id (seed_data req body (uuidv4 env 0) (legacyCrawlerOptions env body)
                (legacyScrapeOptions env (b_scrapeOptions body))) = Some (uuidv4 env 0) \<and>
         b_url body \<in> locks (snd (crawlController env req s)) (uuidv4 env 0) \<and>
         uuidv4 env 1 \<in> crawl_jobs (snd (crawlController env req s)) (uuidv4 env 0)"
proof -
  let ?copts = "legacyCrawlerOptions env body"
  let ?popts = "legacyScrapeOptions env (b_scrapeOptions body)"
  let ?c = "uuidv4 env 0"
  from assms(2) have "fetched_sitemap env ?copts = None \<or> fetched_sitemap env ?copts = Some []"
    by (cases "ignoreSitemap ?copts") (auto simp: fetched_sitemap_def coalesce_def)
  then have calls: "validated_calls env req body =
      SaveCrawl ?c (make_stored_crawl env req body ?copts ?popts) #
      seed_calls env req body ?c ?copts ?popts (make_stored_crawl env req body ?copts ?popts)"
    by (auto simp: validated_calls_def crawl_calls_def Let_def)
  show ?thesis
    by (simp add: crawlController_validated [OF assms(1)] calls seed_calls_def seed_data_def)
qed

subsection \<open>Validation\<close>

lemma first_regexp_error_Some:
  "x \<in> set xs \<Longrightarrow> re x \<noteq> None \<Longrightarrow> \<exists>msg. first_regexp_error re xs = Some msg"
  by (induction xs) (auto split: option.splits)

text \<open>
  C7. When the schema parser accepts the body and some element of the \<^verbatim>\<open>includes\<close> array
  or of the \<^verbatim>\<open>excludes\<close> array does not compile, the controller answers with status 400
  and the body \<^verbatim>\<open>{ success: false, error }\<close>, and the state is the one before the call: no
  crawl record is stored and no job is put on the queue.
\<close>

theorem invalid_regex_rejected:
  assumes "crawlRequestSchema_parse env (req_body req) = Inr body"
    and "(\<exists>xs x. co_includes (legacyCrawlerOptions env body) = Some (ArrV xs) \<and> x \<in> set xs \<and>
            RegExp_error env x \<noteq> None) \<or>
         (\<exists>xs x. co_excludes (legacyCrawlerOptions env body) = Some (ArrV xs) \<and> x \<in> set xs \<and>
            RegExp_error env x \<noteq> None)"
  shows "\<exists>msg. crawlController env req s =
           (Responded \<lparr>res_status = 400,
                       res_json = \<lparr>success = False, res_error = Some msg, res_id = None,
                                   res_url = None\<rparr>\<rparr>, s)"
proof -
  let ?copts = "legacyCrawlerOptions env body"
  let ?re = "RegExp_error env"
  from assms(2) have "(\<exists>msg. check_patterns ?re (co_includes ?copts) = Some msg) \<or>
      (\<exists>msg. check_patterns ?re (co_excludes ?copts) = Some msg)"
    using first_regexp_error_Some [of _ _ ?re] by (fastforce simp: check_patterns_def)
  then show ?thesis
    using assms(1)
    by (cases "check_patterns ?re (co_includes ?copts)")
       (auto simp: crawlController_def Let_def bad_request_def)
qed

theorem invalid_regex_rejected_witness:
  "crawlController (ex_env bad_includes_options None None) ex_req empty_store =
     (Responded \<lparr>res_status = 400,
                 res_json = \<lparr>success = False, res_error = Some ''Unterminated group'',
                             res_id = None, res_url = None\<rparr>\<rparr>, empty_store)"
proof -
  have p: "crawlRequestSchema_parse (ex_env bad_includes_options None None) (req_body ex_req) = Inr ex_body"
    by (simp add: ex_env_fields ex_req_def)
  have b: "(\<exists>xs x. co_includes (legacyCrawlerOptions (ex_env bad_includes_options None None) ex_body) = Some (ArrV xs) \<and> x \<in> set xs \<and>
            RegExp_error (ex_env bad_includes_options None None) x \<noteq> None) \<or>
         (\<exists>xs x. co_excludes (legacyCrawlerOptions (ex_env bad_includes_options None None) ex_body) = Some (ArrV xs) \<and> x \<in> set xs \<and>
            RegExp_error (ex_env bad_includes_options None None) x \<noteq> None)"
    by (simp add: ex_env_def bad_includes_options_def no_crawler_options_def)
  from invalid_regex_rejected [OF p b, of empty_store]
  obtain msg where m: "crawlController (ex_env bad_includes_options None None) ex_req empty_store =
           (Responded \<lparr>res_status = 400,
                       res_json = \<lparr>success = False, res_error = Some msg, res_id = None,
                                   res_url = None\<rparr>\<rparr>, empty_store)" by blast
  have "crawlController (ex_env bad_includes_options None None) ex_req empty_store =
     (Responded (bad_request ''Unterminated group''), empty_store)"
    by (simp add: crawlController_def ex_env_def ex_req_def bad_includes_options_def
        no_crawler_options_def check_patterns_def Let_def)
  with m show ?thesis by (simp add: bad_request_def)
qed

text \<open>
  C9. A validated submission is answered with status 200 and
  \<^verbatim>\<open>{ success: true, id, url }\<close>, where \<^verbatim>\<open>url\<close> is \<^verbatim>\<open><scheme>://<host>/v1/crawl/<id>\<close>; the
  scheme is \<^verbatim>\<open>https\<close> unless \<^verbatim>\<open>ENV\<close> is \<^verbatim>\<open>local\<close>, and then the protocol of the request.
\<close>

theorem crawl_response_url:
  assumes "validated env req body"
  shows "fst (crawlController env req s) =
           Responded
             \<lparr>res_status = 200,
              res_json =
                \<lparr>success = True, res_error = None, res_id = Some (uuidv4 env 0),
                 res_url =
                   Some ((if process_env_ENV env = Some ''local'' then req_protocol req
                          else ''https'')
                         @ ''://'' @ template_str (req_host req) @ ''/v1/crawl/''
                         @ uuidv4 env 0)\<rparr>\<rparr>"
  by (simp add: crawlController_validated [OF assms] crawl_accepted_def Let_def)

theorem crawl_response_url_witness:
  "fst (crawlController (ex_env no_crawler_options None None) ex_req empty_store) =
     Responded
       \<lparr>res_status = 200,
        res_json = \<lparr>success = True, res_error = None, res_id = Some ''id-'',
                    res_url = Some ''https://api.ex.com/v1/crawl/id-''\<rparr>\<rparr> \<and>
   fst (crawlController (ex_env no_crawler_options None (Some ''local'')) ex_req empty_store) =
     Responded
       \<lparr>res_status = 200,
        res_json = \<lparr>success = True, res_error = None, res_id = Some ''id-'',
                    res_url = Some ''http://api.ex.com/v1/crawl/id-''\<rparr>\<rparr>"
  using crawl_response_url [OF validated_ex_env(1), of None None empty_store]
    crawl_response_url [OF validated_ex_env(1), of None "Some ''local''" empty_store]
  by (simp add: ex_env_fields ex_req_def template_str_def)

end
